theory Spec2Isabelle
  imports Main "HOL-Library.Word" "HOL-Library.Signed_Division"
begin

section \<open>The rate-limited connection of package ratelimit (net.go)\<close>

text \<open>
  A shallow embedding of \<^verbatim>\<open>ratelimit/net.go\<close>. The package wraps a \<^verbatim>\<open>net.Conn\<close> and
  sleeps after each Read or Write. Everything the Go code does beyond returning a value
  is explicit here: the clock read by \<^verbatim>\<open>time.Now\<close>, the calls on the underlying
  connection, the sleeps, and the panics of the Go runtime.
\<close>

subsection \<open>Go values\<close>

text \<open>
  Go's \<^verbatim>\<open>int\<close> is taken at its 64-bit width (amd64, arm64), so the conversion
  \<^verbatim>\<open>int64(x)\<close> keeps the value. Arithmetic on \<^verbatim>\<open>int64\<close> wraps around; comparison is
  signed (\<open><s\<close>, \<open>\<le>s\<close>).
\<close>

type_synonym go_int = "64 word"
type_synonym int64 = "64 word"
type_synonym byte = "8 word"

definition to_int64 :: "go_int \<Rightarrow> int64" where
  "to_int64 x = scast x"

text \<open>The run-time panics that the code of this package can reach.\<close>

datatype panic = NilDereference | DivideByZero

text \<open>
  Go's integer quotient \<^verbatim>\<open>a / b\<close> on \<^verbatim>\<open>int64\<close>: it truncates toward zero, and a zero
  divisor is a run-time panic.
\<close>

definition quo_int64 :: "int64 \<Rightarrow> int64 \<Rightarrow> panic + int64" where
  "quo_int64 a b =
     (if b = 0 then Inl DivideByZero else Inr (word_of_int (sint a sdiv sint b)))"

text \<open>\<^verbatim>\<open>errors.New\<close> builds an error value from its message.\<close>

datatype error = errorString string

definition errors_New :: "string \<Rightarrow> error" where
  "errors_New msg = errorString msg"

subsection \<open>Package time\<close>

text \<open>
  A \<^verbatim>\<open>time.Time\<close> is an instant, counted here in nanoseconds from the zero Time
  (January 1, year 1), which is the value of an unset field. A \<^verbatim>\<open>time.Duration\<close> is an
  \<^verbatim>\<open>int64\<close> count of nanoseconds. \<^verbatim>\<open>t.Sub(u)\<close> is \<open>t - u\<close>, held at the largest or
  smallest Duration when the difference does not fit, as the library documents.
\<close>

type_synonym Time = int
type_synonym Duration = "64 word"

definition zeroTime :: Time where
  "zeroTime = 0"

definition IsZero :: "Time \<Rightarrow> bool" where
  "IsZero t = (t = zeroTime)"

definition maxDuration :: int where
  "maxDuration = 2 ^ 63 - 1"

definition minDuration :: int where
  "minDuration = - (2 ^ 63)"

definition Sub :: "Time \<Rightarrow> Time \<Rightarrow> Duration" where
  "Sub t u =
     (if maxDuration < t - u then word_of_int maxDuration
      else if t - u < minDuration then word_of_int minDuration
      else word_of_int (t - u))"

definition Second :: Duration where
  "Second = 1000000000"

definition Nanoseconds :: "Duration \<Rightarrow> int64" where
  "Nanoseconds d = d"

subsection \<open>The world outside the wrapper\<close>

text \<open>
  The underlying \<^verbatim>\<open>net.Conn\<close> is an interface: what its Read and Write return is up to
  the connection. A connection object has a state of type \<open>'c\<close>; a call on it returns the
  byte count, the error, the contents of the buffer afterwards and the nanoseconds
  that went by from the clock reading before the call to the one after it, and leaves
  the object in a new state.
\<close>

datatype io = IO (io_n: go_int) (io_err: "error option") (io_buf: "byte list") (io_dur: nat)

record 'c netConn =
  conn_Read :: "'c \<Rightarrow> byte list \<Rightarrow> io \<times> 'c"
  conn_Write :: "'c \<Rightarrow> byte list \<Rightarrow> io \<times> 'c"

text \<open>
  Every effect is logged: a reading of the clock, a call on the connection object at an
  address with the buffer it was given, a call of \<^verbatim>\<open>time.Sleep\<close> with its argument.
\<close>

datatype event = EvNow | EvRead nat "byte list" | EvWrite nat "byte list" | EvSleep Duration

record 'c world =
  clock :: Time
  heap :: "nat \<Rightarrow> 'c"
  trace :: "event list"

definition time_Now :: "'c world \<Rightarrow> Time \<times> 'c world" where
  "time_Now w = (clock w, w\<lparr>trace := trace w @ [EvNow]\<rparr>)"

text \<open>\<^verbatim>\<open>time.Sleep\<close> returns at once on a negative or zero duration.\<close>

definition time_Sleep :: "Duration \<Rightarrow> 'c world \<Rightarrow> 'c world" where
  "time_Sleep d w =
     w\<lparr>clock := clock w + (if 0 <s d then sint d else 0), trace := trace w @ [EvSleep d]\<rparr>"

text \<open>
  A method call through an interface value: \<open>None\<close> is the nil interface, on which the
  call panics; \<open>Some a\<close> is the connection object at address \<open>a\<close>.
\<close>

definition call_Read ::
  "'c netConn \<Rightarrow> nat option \<Rightarrow> byte list \<Rightarrow> 'c world \<Rightarrow> (panic + io) \<times> 'c world" where
  "call_Read impl c b w =
     (case c of
        None \<Rightarrow> (Inl NilDereference, w)
      | Some a \<Rightarrow>
          (let (r, s) = conn_Read impl (heap w a) b
           in (Inr r, w\<lparr>clock := clock w + int (io_dur r),
                        heap := (heap w)(a := s),
                        trace := trace w @ [EvRead a b]\<rparr>)))"

definition call_Write ::
  "'c netConn \<Rightarrow> nat option \<Rightarrow> byte list \<Rightarrow> 'c world \<Rightarrow> (panic + io) \<times> 'c world" where
  "call_Write impl c b w =
     (case c of
        None \<Rightarrow> (Inl NilDereference, w)
      | Some a \<Rightarrow>
          (let (r, s) = conn_Write impl (heap w a) b
           in (Inr r, w\<lparr>clock := clock w + int (io_dur r),
                        heap := (heap w)(a := s),
                        trace := trace w @ [EvWrite a b]\<rparr>)))"

subsection \<open>RateLimitedConn and New\<close>

record RateLimitedConn =
  Conn :: "nat option"
  rlim :: go_int
  wlim :: go_int
  rtime :: Time
  wtime :: Time

text \<open>
  \<^verbatim>\<open>New\<close> returns the pair \<^verbatim>\<open>(rlc, err)\<close>; \<open>None\<close> in the first place is the nil
  interface that the named result keeps on the error path.
\<close>

definition New ::
  "nat option \<Rightarrow> go_int \<Rightarrow> go_int \<Rightarrow> 'c world
     \<Rightarrow> (RateLimitedConn option \<times> error option) \<times> 'c world" where
  "New conn readLimit writeLimit w =
     (if readLimit <s 0 \<or> writeLimit <s 0
      then ((None, Some (errors_New ''read/write limits cannot be negative'')), w)
      else ((Some \<lparr>Conn = conn, rlim = readLimit, wlim = writeLimit,
                   rtime = zeroTime, wtime = zeroTime\<rparr>, None), w))"

subsection \<open>The method bodies\<close>

text \<open>
  Each body works on \<open>rlc\<close>, its own variable for the receiver, and is modelled as
  returning that variable's final value beside the results and the world. What Read and
  Write return to the caller is \<^verbatim>\<open>(n, err)\<close> and the buffer as the connection left it.
\<close>

type_synonym ret = "go_int \<times> error option \<times> byte list"

definition io_ret :: "io \<Rightarrow> ret" where
  "io_ret r = (io_n r, io_err r, io_buf r)"

definition Read_body ::
  "'c netConn \<Rightarrow> byte list \<Rightarrow> RateLimitedConn \<Rightarrow> 'c world
     \<Rightarrow> (RateLimitedConn \<times> (panic + ret)) \<times> 'c world" where
  "Read_body impl b rlc w =
     (if rlim rlc \<le>s 0 then
        (case call_Read impl (Conn rlc) b w of
           (Inl p, w1) \<Rightarrow> ((rlc, Inl p), w1)
         | (Inr r, w1) \<Rightarrow> ((rlc, Inr (io_ret r)), w1))
      else
        (let (rlc1, w1) =
               (if IsZero (rtime rlc)
                then (let (t0, w0) = time_Now w in (rlc\<lparr>rtime := t0\<rparr>, w0))
                else (rlc, w))
         in case call_Read impl (Conn rlc1) b w1 of
              (Inl p, w2) \<Rightarrow> ((rlc1, Inl p), w2)
            | (Inr r, w2) \<Rightarrow>
                (let (t, w3) = time_Now w2;
                     d = Nanoseconds (Sub t (rtime rlc1))
                 in case quo_int64 (Nanoseconds Second) (to_int64 (rlim rlc1)) of
                      Inl p \<Rightarrow> ((rlc1, Inl p), w3)
                    | Inr timePerByte \<Rightarrow>
                        (let timeForNBytes = timePerByte * to_int64 (io_n r);
                             w4 = (if 0 <s io_n r \<and> d <s timeForNBytes
                                   then time_Sleep (timeForNBytes - d) w3 else w3)
                         in ((rlc1\<lparr>rtime := t\<rparr>, Inr (io_ret r)), w4)))))"

definition Write_body ::
  "'c netConn \<Rightarrow> byte list \<Rightarrow> RateLimitedConn \<Rightarrow> 'c world
     \<Rightarrow> (RateLimitedConn \<times> (panic + ret)) \<times> 'c world" where
  "Write_body impl b rlc w =
     (if wlim rlc \<le>s 0 then
        (case call_Write impl (Conn rlc) b w of
           (Inl p, w1) \<Rightarrow> ((rlc, Inl p), w1)
         | (Inr r, w1) \<Rightarrow> ((rlc, Inr (io_ret r)), w1))
      else
        (let (rlc1, w1) =
               (if IsZero (wtime rlc)
                then (let (t0, w0) = time_Now w in (rlc\<lparr>wtime := t0\<rparr>, w0))
                else (rlc, w))
         in case call_Write impl (Conn rlc1) b w1 of
              (Inl p, w2) \<Rightarrow> ((rlc1, Inl p), w2)
            | (Inr r, w2) \<Rightarrow>
                (let (t, w3) = time_Now w2;
                     d = Nanoseconds (Sub t (wtime rlc1))
                 in case quo_int64 (Nanoseconds Second) (to_int64 (wlim rlc1)) of
                      Inl p \<Rightarrow> ((rlc1, Inl p), w3)
                    | Inr timePerByte \<Rightarrow>
                        (let timeForNBytes = timePerByte * to_int64 (io_n r);
                             w4 = (if 0 <s io_n r \<and> d <s timeForNBytes
                                   then time_Sleep (timeForNBytes - d) w3 else w3)
                         in ((rlc1\<lparr>wtime := t\<rparr>, Inr (io_ret r)), w4)))))"

definition SetReadLimit_body ::
  "go_int \<Rightarrow> RateLimitedConn \<Rightarrow> 'c world \<Rightarrow> (RateLimitedConn \<times> error option) \<times> 'c world" where
  "SetReadLimit_body lim rlc w =
     (if lim <s 0 then ((rlc, Some (errors_New ''read limit cannot be negative'')), w)
      else ((rlc\<lparr>rlim := lim\<rparr>, None), w))"

definition SetWriteLimit_body ::
  "go_int \<Rightarrow> RateLimitedConn \<Rightarrow> 'c world \<Rightarrow> (RateLimitedConn \<times> error option) \<times> 'c world" where
  "SetWriteLimit_body lim rlc w =
     (if lim <s 0 then ((rlc, Some (errors_New ''write limit cannot be negative'')), w)
      else ((rlc\<lparr>wlim := lim\<rparr>, None), w))"

subsection \<open>Calling the methods\<close>

text \<open>
  All four methods are declared on the value receiver \<^verbatim>\<open>(rlc RateLimitedConn)\<close>. Go
  copies the caller's value into the method's \<open>rlc\<close> at each call, and the copy is gone
  when the method returns: after the call the caller holds the value it passed.
\<close>

definition value_receiver ::
  "('r \<Rightarrow> 'w \<Rightarrow> ('r \<times> 'a) \<times> 'w) \<Rightarrow> 'r \<Rightarrow> 'w \<Rightarrow> ('r \<times> 'a) \<times> 'w" where
  "value_receiver body r w = (let ((r', a), w') = body r w in ((r, a), w'))"

definition Read ::
  "'c netConn \<Rightarrow> byte list \<Rightarrow> RateLimitedConn \<Rightarrow> 'c world
     \<Rightarrow> (RateLimitedConn \<times> (panic + ret)) \<times> 'c world" where
  "Read impl b = value_receiver (Read_body impl b)"

definition Write ::
  "'c netConn \<Rightarrow> byte list \<Rightarrow> RateLimitedConn \<Rightarrow> 'c world
     \<Rightarrow> (RateLimitedConn \<times> (panic + ret)) \<times> 'c world" where
  "Write impl b = value_receiver (Write_body impl b)"

definition SetReadLimit ::
  "go_int \<Rightarrow> RateLimitedConn \<Rightarrow> 'c world \<Rightarrow> (RateLimitedConn \<times> error option) \<times> 'c world" where
  "SetReadLimit lim = value_receiver (SetReadLimit_body lim)"

definition SetWriteLimit ::
  "go_int \<Rightarrow> RateLimitedConn \<Rightarrow> 'c world \<Rightarrow> (RateLimitedConn \<times> error option) \<times> 'c world" where
  "SetWriteLimit lim = value_receiver (SetWriteLimit_body lim)"

subsection \<open>A caller holding a wrapper\<close>

text \<open>
  A caller keeps one wrapper value in a variable and calls methods on it, one after
  the other. \<open>invoke\<close> is one such call; \<open>run\<close> is a sequence of them, which a panic
  ends. The wrapper that \<open>run\<close> threads from call to call is the caller's variable.
\<close>

datatype call =
    DoRead "byte list"
  | DoWrite "byte list"
  | DoSetReadLimit go_int
  | DoSetWriteLimit go_int

datatype outcome = Transferred ret | Configured "error option" | Panicked panic

fun transfer_outcome :: "panic + ret \<Rightarrow> outcome" where
  "transfer_outcome (Inl p) = Panicked p"
| "transfer_outcome (Inr v) = Transferred v"

fun invoke ::
  "'c netConn \<Rightarrow> call \<Rightarrow> RateLimitedConn \<Rightarrow> 'c world
     \<Rightarrow> (RateLimitedConn \<times> outcome) \<times> 'c world" where
  "invoke impl (DoRead b) rlc w =
     (let ((rlc', x), w') = Read impl b rlc w in ((rlc', transfer_outcome x), w'))"
| "invoke impl (DoWrite b) rlc w =
     (let ((rlc', x), w') = Write impl b rlc w in ((rlc', transfer_outcome x), w'))"
| "invoke impl (DoSetReadLimit lim) rlc w =
     (let ((rlc', e), w') = SetReadLimit lim rlc w in ((rlc', Configured e), w'))"
| "invoke impl (DoSetWriteLimit lim) rlc w =
     (let ((rlc', e), w') = SetWriteLimit lim rlc w in ((rlc', Configured e), w'))"

fun is_panic :: "outcome \<Rightarrow> bool" where
  "is_panic (Panicked p) = True"
| "is_panic (Transferred v) = False"
| "is_panic (Configured e) = False"

fun run ::
  "'c netConn \<Rightarrow> call list \<Rightarrow> RateLimitedConn \<Rightarrow> 'c world
     \<Rightarrow> (RateLimitedConn \<times> outcome list) \<times> 'c world" where
  "run impl [] rlc w = ((rlc, []), w)"
| "run impl (c # cs) rlc w =
     (let ((rlc1, out), w1) = invoke impl c rlc w
      in if is_panic out then ((rlc1, [out]), w1)
         else (let ((rlc2, outs), w2) = run impl cs rlc1 w1 in ((rlc2, out # outs), w2)))"

text \<open>The calls made on the underlying connection, among the events.\<close>

fun is_conn_call :: "event \<Rightarrow> bool" where
  "is_conn_call (EvRead a b) = True"
| "is_conn_call (EvWrite a b) = True"
| "is_conn_call EvNow = False"
| "is_conn_call (EvSleep d) = False"

definition conn_calls :: "event list \<Rightarrow> event list" where
  "conn_calls tr = filter is_conn_call tr"

subsection \<open>A concrete connection\<close>

text \<open>
  A connection whose every Read delivers 1024 bytes, and whose every Write takes the
  whole buffer, in one millisecond; a world whose clock stands in the year 2025; the
  wrappers that \<open>New\<close> builds on it with a read limit of 4096 bytes per second, with a
  write limit of 4096, and with no limit.
\<close>

definition steadyConn :: "nat netConn" where
  "steadyConn =
     \<lparr>conn_Read = (\<lambda>s b. (IO 1024 None b 1000000, Suc s)),
      conn_Write = (\<lambda>s b. (IO (word_of_nat (length b)) None b 1000000, Suc s))\<rparr>"

definition world0 :: "nat world" where
  "world0 = \<lparr>clock = 63900000000000000000, heap = (\<lambda>a. 0), trace = []\<rparr>"

definition readLimited :: RateLimitedConn where
  "readLimited =
     \<lparr>Conn = Some 0, rlim = 4096, wlim = 0, rtime = zeroTime, wtime = zeroTime\<rparr>"

definition writeLimited :: RateLimitedConn where
  "writeLimited =
     \<lparr>Conn = Some 0, rlim = 0, wlim = 4096, rtime = zeroTime, wtime = zeroTime\<rparr>"

definition unlimited :: RateLimitedConn where
  "unlimited =
     \<lparr>Conn = Some 0, rlim = 0, wlim = 0, rtime = zeroTime, wtime = zeroTime\<rparr>"

definition kilobyte :: "byte list" where
  "kilobyte = replicate 1024 0"

text \<open>
  A connection at its end: every Read delivers 7 bytes, overwrites the buffer and
  reports \<^verbatim>\<open>EOF\<close>; every Write takes 3 bytes and reports a broken pipe; each in 500
  nanoseconds.
\<close>

definition failingConn :: "nat netConn" where
  "failingConn =
     \<lparr>conn_Read = (\<lambda>s b. (IO 7 (Some (errors_New ''EOF'')) (replicate (length b) 255) 500, Suc s)),
      conn_Write = (\<lambda>s b. (IO 3 (Some (errors_New ''write: broken pipe'')) b 500, Suc s))\<rparr>"

section \<open>Properties\<close>

subsection \<open>Arithmetic of the allowed time\<close>

lemma sdiv_nonneg_pos: "0 \<le> a \<Longrightarrow> 0 < b \<Longrightarrow> (a::int) sdiv b = a div b"
  by (simp add: signed_divide_int_def sgn_if)

lemma sint_word_of_int_64:
  fixes x :: int
  assumes "- (2 ^ 63) \<le> x" and "x < 2 ^ 63"
  shows "sint (word_of_int x :: 64 word) = x"
  using assms by (simp add: sint_sbintrunc' signed_take_bit_int_eq_self)

lemma sint_Second: "sint (Nanoseconds Second) = 1000000000"
  by (simp add: Nanoseconds_def Second_def)

lemma quo_int64_zero_iff: "(quo_int64 a b = Inl DivideByZero) = (b = 0)"
  by (simp add: quo_int64_def)

lemma not_sle_iff: "(\<not> a \<le>s b) = (b <s a)"
  by (simp add: word_sless_alt word_sle_eq not_le)

lemma quo_Second:
  assumes "0 <s L"
  shows "quo_int64 (Nanoseconds Second) (to_int64 L) = Inr (word_of_int (1000000000 div sint L))"
proof -
  from assms have pos: "0 < sint L" by (simp add: word_sless_alt)
  then have "L \<noteq> 0" by auto
  moreover have "sint (Nanoseconds Second) sdiv sint L = 1000000000 div sint L"
    using pos by (simp add: sint_Second sdiv_nonneg_pos)
  ultimately show ?thesis by (simp add: quo_int64_def to_int64_def)
qed


subsection \<open>The two paths of Read and Write\<close>

lemma Read_body_unlimited:
  assumes "rlim rlc \<le>s 0"
  shows "Read_body impl b rlc w =
           (case call_Read impl (Conn rlc) b w of
              (res, w1) \<Rightarrow> ((rlc, map_sum id io_ret res), w1))"
  using assms by (simp add: Read_body_def split: prod.splits sum.splits)

lemma Write_body_unlimited:
  assumes "wlim rlc \<le>s 0"
  shows "Write_body impl b rlc w =
           (case call_Write impl (Conn rlc) b w of
              (res, w1) \<Rightarrow> ((rlc, map_sum id io_ret res), w1))"
  using assms by (simp add: Write_body_def split: prod.splits sum.splits)

lemma Read_body_limited:
  assumes "0 <s rlim rlc" and "Conn rlc = Some a" and "conn_Read impl (heap w a) b = (r, s)"
  shows "Read_body impl b rlc w =
           (let base = (if IsZero (rtime rlc) then clock w else rtime rlc);
                t = clock w + int (io_dur r);
                d = Sub t base;
                timeForNBytes = word_of_int (1000000000 div sint (rlim rlc)) * io_n r;
                w3 = w\<lparr>clock := t, heap := (heap w)(a := s),
                       trace := trace w @ (if IsZero (rtime rlc) then [EvNow] else [])
                                  @ [EvRead a b, EvNow]\<rparr>
            in ((rlc\<lparr>rtime := t\<rparr>, Inr (io_ret r)),
                if 0 <s io_n r \<and> d <s timeForNBytes
                then time_Sleep (timeForNBytes - d) w3 else w3))"
proof -
  from assms(1) have slow: "\<not> rlim rlc \<le>s 0" by (simp add: not_sle_iff)
  show ?thesis
    using assms(2,3) slow quo_Second [OF assms(1)]
    by (simp add: Read_body_def call_Read_def time_Now_def Let_def Nanoseconds_def to_int64_def)
qed

lemma Write_body_limited:
  assumes "0 <s wlim rlc" and "Conn rlc = Some a" and "conn_Write impl (heap w a) b = (r, s)"
  shows "Write_body impl b rlc w =
           (let base = (if IsZero (wtime rlc) then clock w else wtime rlc);
                t = clock w + int (io_dur r);
                d = Sub t base;
                timeForNBytes = word_of_int (1000000000 div sint (wlim rlc)) * io_n r;
                w3 = w\<lparr>clock := t, heap := (heap w)(a := s),
                       trace := trace w @ (if IsZero (wtime rlc) then [EvNow] else [])
                                  @ [EvWrite a b, EvNow]\<rparr>
            in ((rlc\<lparr>wtime := t\<rparr>, Inr (io_ret r)),
                if 0 <s io_n r \<and> d <s timeForNBytes
                then time_Sleep (timeForNBytes - d) w3 else w3))"
proof -
  from assms(1) have slow: "\<not> wlim rlc \<le>s 0" by (simp add: not_sle_iff)
  show ?thesis
    using assms(2,3) slow quo_Second [OF assms(1)]
    by (simp add: Write_body_def call_Write_def time_Now_def Let_def Nanoseconds_def to_int64_def)
qed

lemma Read_body_nil:
  assumes "Conn rlc = None"
  shows "snd (fst (Read_body impl b rlc w)) = Inl NilDereference"
  using assms by (simp add: Read_body_def call_Read_def time_Now_def Let_def)

lemma Write_body_nil:
  assumes "Conn rlc = None"
  shows "snd (fst (Write_body impl b rlc w)) = Inl NilDereference"
  using assms by (simp add: Write_body_def call_Write_def time_Now_def Let_def)

lemma value_receiver_result:
  "snd (fst (value_receiver body r w)) = snd (fst (body r w))"
  by (simp add: value_receiver_def split: prod.splits)

lemma value_receiver_world:
  "snd (value_receiver body r w) = snd (body r w)"
  by (simp add: value_receiver_def split: prod.splits)

lemma value_receiver_caller:
  "fst (fst (value_receiver body r w)) = r"
  by (simp add: value_receiver_def split: prod.splits)

text \<open>Evaluating the model on concrete values.\<close>

lemmas go_eval =
  Read_def Write_def SetReadLimit_def SetWriteLimit_def value_receiver_def
  Read_body_def Write_body_def SetReadLimit_body_def SetWriteLimit_body_def New_def
  call_Read_def call_Write_def time_Now_def time_Sleep_def IsZero_def zeroTime_def Sub_def
  quo_int64_def to_int64_def Nanoseconds_def Second_def maxDuration_def minDuration_def
  signed_divide_int_def word_sless_alt word_sle_eq io_ret_def errors_New_def conn_calls_def
  steadyConn_def world0_def readLimited_def writeLimited_def unlimited_def

subsection \<open>The constructor\<close>

text \<open>
  C4. For every pair of limits the constructor returns no error exactly when both are
  non-negative (as signed integers). When it returns an error, the error is the one
  built from the message about negative limits and the returned wrapper is nil. When it
  returns no error, the wrapper holds the given connection and the given limits, and
  both of its timestamps are the zero Time.
\<close>

theorem New_validates_limits:
  "(snd (fst (New conn readLimit writeLimit w)) = None)
     = (0 \<le> sint readLimit \<and> 0 \<le> sint writeLimit)
   \<and> (snd (fst (New conn readLimit writeLimit w)) \<noteq> None \<longrightarrow>
        fst (New conn readLimit writeLimit w)
          = (None, Some (errors_New ''read/write limits cannot be negative'')))
   \<and> (snd (fst (New conn readLimit writeLimit w)) = None \<longrightarrow>
        (\<exists>rlc. fst (fst (New conn readLimit writeLimit w)) = Some rlc
           \<and> Conn rlc = conn \<and> rlim rlc = readLimit \<and> wlim rlc = writeLimit
           \<and> IsZero (rtime rlc) \<and> IsZero (wtime rlc)))"
  by (auto simp: New_def IsZero_def word_sless_alt)

theorem New_validates_limits_witness:
  "fst (New None (- 1) 10 world0)
     = (None, Some (errors_New ''read/write limits cannot be negative''))
   \<and> fst (New None 10 (- 1) world0)
     = (None, Some (errors_New ''read/write limits cannot be negative''))
   \<and> (\<exists>rlc. fst (fst (New (Some 0) 4096 0 world0)) = Some rlc
          \<and> Conn rlc = Some 0 \<and> rlim rlc = 4096 \<and> wlim rlc = 0
          \<and> IsZero (rtime rlc) \<and> IsZero (wtime rlc))"
  using New_validates_limits [of None "- 1" 10 world0]
    New_validates_limits [of None 10 "- 1" world0]
    New_validates_limits [of "Some 0" 4096 0 world0]
  by simp

text \<open>
  C9. The constructor leaves the world as it found it: no call on a connection, no
  reading of the clock, no change of any connection object. Its error does not depend
  on the connection it is given nor on the world, so a nil connection validates a pair
  of limits as well as a real one; the connection is only stored.
\<close>

theorem New_touches_nothing:
  "snd (New conn readLimit writeLimit w) = w
   \<and> snd (fst (New conn readLimit writeLimit w)) = snd (fst (New None readLimit writeLimit w'))
   \<and> fst (fst (New conn readLimit writeLimit w))
       = map_option (\<lambda>rlc. rlc\<lparr>Conn := conn\<rparr>) (fst (fst (New None readLimit writeLimit w')))"
  by (simp add: New_def)

subsection \<open>No division by zero\<close>

text \<open>
  C10. In the model a quotient with a zero divisor is the panic \<open>DivideByZero\<close>, and
  only such a quotient is. Read and Write never end in that panic, whatever the
  wrapper, the buffer, the connection and the world: the quotient is reached only past
  the fast path, which takes every limit that is zero or negative.
\<close>

theorem Read_Write_never_divide_by_zero:
  "quo_int64 x 0 = Inl DivideByZero
   \<and> snd (fst (Read_body impl b rlc w)) \<noteq> Inl DivideByZero
   \<and> snd (fst (Write_body impl b rlc w)) \<noteq> Inl DivideByZero
   \<and> snd (fst (Read impl b rlc w)) \<noteq> Inl DivideByZero
   \<and> snd (fst (Write impl b rlc w)) \<noteq> Inl DivideByZero"
proof -
  have r: "snd (fst (Read_body impl b rlc w)) \<noteq> Inl DivideByZero"
    by (auto simp: Read_body_def call_Read_def time_Now_def quo_int64_def to_int64_def Let_def
        split: prod.splits sum.splits option.splits if_splits)
  have wr: "snd (fst (Write_body impl b rlc w)) \<noteq> Inl DivideByZero"
    by (auto simp: Write_body_def call_Write_def time_Now_def quo_int64_def to_int64_def Let_def
        split: prod.splits sum.splits option.splits if_splits)
  show ?thesis
    using r wr by (simp add: Read_def Write_def value_receiver_result quo_int64_zero_iff)
qed

subsection \<open>The unlimited direction\<close>

text \<open>
  C7. A Read on a wrapper whose read limit is 0 is the call on the underlying
  connection and nothing else: it returns the byte count, the error and the buffer that
  the connection's Read returned, each as it is (or panics where that call panics, on a
  nil connection), it leaves the world as that call alone leaves it,
  so the only event is the call itself, with no reading of the clock and no sleep; the
  receiver's fields are not assigned, and the read timestamp has no influence on the
  outcome. The same holds for a Write on a wrapper whose write limit is 0.
\<close>

theorem unlimited_direction_delegates:
  "(rlim rlc = 0 \<longrightarrow>
      fst (fst (Read_body impl b rlc w)) = rlc
    \<and> snd (fst (Read_body impl b rlc w))
        = (case Conn rlc of
             None \<Rightarrow> Inl NilDereference
           | Some a \<Rightarrow>
               Inr (io_n (fst (conn_Read impl (heap w a) b)),
                    io_err (fst (conn_Read impl (heap w a) b)),
                    io_buf (fst (conn_Read impl (heap w a) b))))
    \<and> snd (Read_body impl b rlc w) = snd (call_Read impl (Conn rlc) b w)
    \<and> trace (snd (Read_body impl b rlc w))
        = trace w @ (case Conn rlc of None \<Rightarrow> [] | Some a \<Rightarrow> [EvRead a b])
    \<and> snd (fst (Read_body impl b (rlc\<lparr>rtime := t\<rparr>) w)) = snd (fst (Read_body impl b rlc w))
    \<and> snd (Read_body impl b (rlc\<lparr>rtime := t\<rparr>) w) = snd (Read_body impl b rlc w))
   \<and> (wlim rlc = 0 \<longrightarrow>
      fst (fst (Write_body impl b rlc w)) = rlc
    \<and> snd (fst (Write_body impl b rlc w))
        = (case Conn rlc of
             None \<Rightarrow> Inl NilDereference
           | Some a \<Rightarrow>
               Inr (io_n (fst (conn_Write impl (heap w a) b)),
                    io_err (fst (conn_Write impl (heap w a) b)),
                    io_buf (fst (conn_Write impl (heap w a) b))))
    \<and> snd (Write_body impl b rlc w) = snd (call_Write impl (Conn rlc) b w)
    \<and> trace (snd (Write_body impl b rlc w))
        = trace w @ (case Conn rlc of None \<Rightarrow> [] | Some a \<Rightarrow> [EvWrite a b])
    \<and> snd (fst (Write_body impl b (rlc\<lparr>wtime := t\<rparr>) w)) = snd (fst (Write_body impl b rlc w))
    \<and> snd (Write_body impl b (rlc\<lparr>wtime := t\<rparr>) w) = snd (Write_body impl b rlc w))"
proof (intro conjI impI)
  assume z: "rlim rlc = 0"
  then have fast: "rlim rlc \<le>s 0" and fast': "rlim (rlc\<lparr>rtime := t\<rparr>) \<le>s 0"
    by (simp_all add: word_sle_eq)
  show "fst (fst (Read_body impl b rlc w)) = rlc"
    by (simp add: Read_body_unlimited [OF fast] split: prod.splits)
  show "snd (fst (Read_body impl b rlc w))
        = (case Conn rlc of
             None \<Rightarrow> Inl NilDereference
           | Some a \<Rightarrow>
               Inr (io_n (fst (conn_Read impl (heap w a) b)),
                    io_err (fst (conn_Read impl (heap w a) b)),
                    io_buf (fst (conn_Read impl (heap w a) b))))"
    by (simp add: Read_body_unlimited [OF fast] call_Read_def io_ret_def
        split: prod.splits option.splits)
  show "snd (Read_body impl b rlc w) = snd (call_Read impl (Conn rlc) b w)"
    by (simp add: Read_body_unlimited [OF fast] split: prod.splits)
  show "trace (snd (Read_body impl b rlc w))
          = trace w @ (case Conn rlc of None \<Rightarrow> [] | Some a \<Rightarrow> [EvRead a b])"
    by (simp add: Read_body_unlimited [OF fast] call_Read_def split: prod.splits option.splits)
  show "snd (fst (Read_body impl b (rlc\<lparr>rtime := t\<rparr>) w)) = snd (fst (Read_body impl b rlc w))"
    by (simp add: Read_body_unlimited [OF fast] Read_body_unlimited [OF fast'] split: prod.splits)
  show "snd (Read_body impl b (rlc\<lparr>rtime := t\<rparr>) w) = snd (Read_body impl b rlc w)"
    by (simp add: Read_body_unlimited [OF fast] Read_body_unlimited [OF fast'] split: prod.splits)
next
  assume z: "wlim rlc = 0"
  then have fast: "wlim rlc \<le>s 0" and fast': "wlim (rlc\<lparr>wtime := t\<rparr>) \<le>s 0"
    by (simp_all add: word_sle_eq)
  show "fst (fst (Write_body impl b rlc w)) = rlc"
    by (simp add: Write_body_unlimited [OF fast] split: prod.splits)
  show "snd (fst (Write_body impl b rlc w))
        = (case Conn rlc of
             None \<Rightarrow> Inl NilDereference
           | Some a \<Rightarrow>
               Inr (io_n (fst (conn_Write impl (heap w a) b)),
                    io_err (fst (conn_Write impl (heap w a) b)),
                    io_buf (fst (conn_Write impl (heap w a) b))))"
    by (simp add: Write_body_unlimited [OF fast] call_Write_def io_ret_def
        split: prod.splits option.splits)
  show "snd (Write_body impl b rlc w) = snd (call_Write impl (Conn rlc) b w)"
    by (simp add: Write_body_unlimited [OF fast] split: prod.splits)
  show "trace (snd (Write_body impl b rlc w))
          = trace w @ (case Conn rlc of None \<Rightarrow> [] | Some a \<Rightarrow> [EvWrite a b])"
    by (simp add: Write_body_unlimited [OF fast] call_Write_def split: prod.splits option.splits)
  show "snd (fst (Write_body impl b (rlc\<lparr>wtime := t\<rparr>) w)) = snd (fst (Write_body impl b rlc w))"
    by (simp add: Write_body_unlimited [OF fast] Write_body_unlimited [OF fast'] split: prod.splits)
  show "snd (Write_body impl b (rlc\<lparr>wtime := t\<rparr>) w) = snd (Write_body impl b rlc w)"
    by (simp add: Write_body_unlimited [OF fast] Write_body_unlimited [OF fast'] split: prod.splits)
qed

theorem unlimited_direction_delegates_witness:
  "rlim unlimited = 0 \<and> wlim unlimited = 0
   \<and> snd (fst (Read_body steadyConn kilobyte unlimited world0)) = Inr (1024, None, kilobyte)
   \<and> trace (snd (Read_body steadyConn kilobyte unlimited world0)) = [EvRead 0 kilobyte]
   \<and> fst (fst (Read_body steadyConn kilobyte unlimited world0)) = unlimited
   \<and> trace (snd (Write_body steadyConn [] unlimited world0)) = [EvWrite 0 []]
   \<and> fst (fst (Write_body steadyConn [] unlimited world0)) = unlimited
   \<and> snd (fst (Read_body failingConn [1, 2, 3] unlimited world0))
       = Inr (7, Some (errors_New ''EOF''), [255, 255, 255])
   \<and> trace (snd (Read_body failingConn [1, 2, 3] unlimited world0)) = [EvRead 0 [1, 2, 3]]
   \<and> snd (fst (Write_body failingConn [1, 2, 3] unlimited world0))
       = Inr (3, Some (errors_New ''write: broken pipe''), [1, 2, 3])
   \<and> trace (snd (Write_body failingConn [1, 2, 3] unlimited world0)) = [EvWrite 0 [1, 2, 3]]
   \<and> snd (fst (Read_body failingConn [1, 2, 3] (unlimited\<lparr>Conn := None\<rparr>) world0))
       = Inl NilDereference"
proof -
  have z: "rlim unlimited = 0" "wlim unlimited = 0" "Conn unlimited = Some 0"
    by (simp_all add: unlimited_def)
  have three: "replicate (length [1, 2, 3 :: byte]) (255 :: byte) = [255, 255, 255]"
    by (simp add: numeral_3_eq_3)
  show ?thesis
    using unlimited_direction_delegates
        [where rlc = unlimited and impl = steadyConn and b = kilobyte and w = world0 and t = 0]
      unlimited_direction_delegates
        [where rlc = unlimited and impl = steadyConn and b = "[]" and w = world0 and t = 0]
      unlimited_direction_delegates
        [where rlc = unlimited and impl = failingConn and b = "[1, 2, 3]" and w = world0
           and t = 0]
      unlimited_direction_delegates
        [where rlc = "unlimited\<lparr>Conn := None\<rparr>" and impl = failingConn and b = "[1, 2, 3]"
           and w = world0 and t = 0]
    by (simp add: z three call_Read_def call_Write_def steadyConn_def failingConn_def
        world0_def)
qed

subsection \<open>Results pass through\<close>

lemma conn_calls_append: "conn_calls (xs @ ys) = conn_calls xs @ conn_calls ys"
  by (simp add: conn_calls_def)

lemma Read_body_passes:
  assumes "Conn rlc = Some a"
  shows "snd (fst (Read_body impl b rlc w)) = Inr (io_ret (fst (conn_Read impl (heap w a) b)))
       \<and> conn_calls (trace (snd (Read_body impl b rlc w))) = conn_calls (trace w) @ [EvRead a b]
       \<and> heap (snd (Read_body impl b rlc w)) = (heap w)(a := snd (conn_Read impl (heap w a) b))"
proof (cases "rlim rlc \<le>s 0")
  case True
  then show ?thesis
    using assms
    by (simp add: Read_body_unlimited call_Read_def conn_calls_def split: prod.splits)
next
  case False
  then have pos: "0 <s rlim rlc" by (simp add: not_sle_iff)
  obtain r s where rs: "conn_Read impl (heap w a) b = (r, s)" by (cases "conn_Read impl (heap w a) b")
  show ?thesis
    by (simp add: Read_body_limited [OF pos assms rs] rs Let_def time_Sleep_def conn_calls_def)
qed

lemma Write_body_passes:
  assumes "Conn rlc = Some a"
  shows "snd (fst (Write_body impl b rlc w)) = Inr (io_ret (fst (conn_Write impl (heap w a) b)))
       \<and> conn_calls (trace (snd (Write_body impl b rlc w))) = conn_calls (trace w) @ [EvWrite a b]
       \<and> heap (snd (Write_body impl b rlc w)) = (heap w)(a := snd (conn_Write impl (heap w a) b))"
proof (cases "wlim rlc \<le>s 0")
  case True
  then show ?thesis
    using assms
    by (simp add: Write_body_unlimited call_Write_def conn_calls_def split: prod.splits)
next
  case False
  then have pos: "0 <s wlim rlc" by (simp add: not_sle_iff)
  obtain r s where rs: "conn_Write impl (heap w a) b = (r, s)" by (cases "conn_Write impl (heap w a) b")
  show ?thesis
    by (simp add: Write_body_limited [OF pos assms rs] rs Let_def time_Sleep_def conn_calls_def)
qed

lemma Read_body_nil_world:
  assumes "Conn rlc = None"
  shows "conn_calls (trace (snd (Read_body impl b rlc w))) = conn_calls (trace w)
       \<and> heap (snd (Read_body impl b rlc w)) = heap w"
  using assms by (simp add: Read_body_def call_Read_def time_Now_def Let_def conn_calls_def)

lemma Write_body_nil_world:
  assumes "Conn rlc = None"
  shows "conn_calls (trace (snd (Write_body impl b rlc w))) = conn_calls (trace w)
       \<and> heap (snd (Write_body impl b rlc w)) = heap w"
  using assms by (simp add: Write_body_def call_Write_def time_Now_def Let_def conn_calls_def)

text \<open>
  C6. Whatever the limits and the timestamps of the wrapper, a call of Read makes
  exactly one call on the underlying connection, its Read with the caller's buffer, and
  returns that call's byte count, error and buffer; the connection object is left as
  that one call leaves it. On a nil connection that one call is the panic of the whole
  Read, and no call reaches any connection. Write does the same with the connection's
  Write. Sleeping changes neither the results nor the number of calls.
\<close>

theorem transfer_results_pass_through:
  "(case Conn rlc of
      None \<Rightarrow>
        snd (fst (Read impl b rlc w)) = Inl NilDereference
        \<and> conn_calls (trace (snd (Read impl b rlc w))) = conn_calls (trace w)
        \<and> heap (snd (Read impl b rlc w)) = heap w
    | Some a \<Rightarrow>
        snd (fst (Read impl b rlc w))
          = Inr (io_n (fst (conn_Read impl (heap w a) b)),
                 io_err (fst (conn_Read impl (heap w a) b)),
                 io_buf (fst (conn_Read impl (heap w a) b)))
        \<and> conn_calls (trace (snd (Read impl b rlc w))) = conn_calls (trace w) @ [EvRead a b]
        \<and> heap (snd (Read impl b rlc w)) = (heap w)(a := snd (conn_Read impl (heap w a) b)))
   \<and> (case Conn rlc of
      None \<Rightarrow>
        snd (fst (Write impl b rlc w)) = Inl NilDereference
        \<and> conn_calls (trace (snd (Write impl b rlc w))) = conn_calls (trace w)
        \<and> heap (snd (Write impl b rlc w)) = heap w
    | Some a \<Rightarrow>
        snd (fst (Write impl b rlc w))
          = Inr (io_n (fst (conn_Write impl (heap w a) b)),
                 io_err (fst (conn_Write impl (heap w a) b)),
                 io_buf (fst (conn_Write impl (heap w a) b)))
        \<and> conn_calls (trace (snd (Write impl b rlc w))) = conn_calls (trace w) @ [EvWrite a b]
        \<and> heap (snd (Write impl b rlc w)) = (heap w)(a := snd (conn_Write impl (heap w a) b)))"
proof (cases "Conn rlc")
  case None
  then show ?thesis
    using Read_body_nil [OF None, of impl b w] Read_body_nil_world [OF None, of impl b w]
      Write_body_nil [OF None, of impl b w] Write_body_nil_world [OF None, of impl b w]
    by (simp add: Read_def Write_def value_receiver_result value_receiver_world)
next
  case (Some a)
  then show ?thesis
    using Read_body_passes [OF Some, of impl b w] Write_body_passes [OF Some, of impl b w]
    by (simp add: Read_def Write_def value_receiver_result value_receiver_world io_ret_def)
qed

theorem transfer_results_pass_through_witness:
  "snd (fst (Read steadyConn kilobyte readLimited world0)) = Inr (1024, None, kilobyte)
   \<and> conn_calls (trace (snd (Read steadyConn kilobyte readLimited world0))) = [EvRead 0 kilobyte]
   \<and> snd (fst (Write steadyConn kilobyte writeLimited world0)) = Inr (1024, None, kilobyte)
   \<and> conn_calls (trace (snd (Write steadyConn kilobyte writeLimited world0))) = [EvWrite 0 kilobyte]
   \<and> snd (fst (Read steadyConn kilobyte (readLimited\<lparr>Conn := None\<rparr>) world0)) = Inl NilDereference
   \<and> snd (fst (Read failingConn [1, 2, 3] readLimited world0))
       = Inr (7, Some (errors_New ''EOF''), [255, 255, 255])
   \<and> conn_calls (trace (snd (Read failingConn [1, 2, 3] readLimited world0)))
       = [EvRead 0 [1, 2, 3]]
   \<and> snd (fst (Write failingConn [1, 2, 3] writeLimited world0))
       = Inr (3, Some (errors_New ''write: broken pipe''), [1, 2, 3])
   \<and> conn_calls (trace (snd (Write failingConn [1, 2, 3] writeLimited world0)))
       = [EvWrite 0 [1, 2, 3]]
   \<and> snd (fst (Read failingConn [1, 2, 3] unlimited world0))
       = Inr (7, Some (errors_New ''EOF''), [255, 255, 255])"
proof -
  have three: "replicate (length [1, 2, 3 :: byte]) (255 :: byte) = [255, 255, 255]"
    by (simp add: numeral_3_eq_3)
  show ?thesis
    using transfer_results_pass_through
        [where rlc = readLimited and impl = steadyConn and b = kilobyte and w = world0]
      transfer_results_pass_through
        [where rlc = writeLimited and impl = steadyConn and b = kilobyte and w = world0]
      transfer_results_pass_through
        [where rlc = "readLimited\<lparr>Conn := None\<rparr>" and impl = steadyConn and b = kilobyte
           and w = world0]
      transfer_results_pass_through
        [where rlc = readLimited and impl = failingConn and b = "[1, 2, 3]" and w = world0]
      transfer_results_pass_through
        [where rlc = writeLimited and impl = failingConn and b = "[1, 2, 3]" and w = world0]
      transfer_results_pass_through
        [where rlc = unlimited and impl = failingConn and b = "[1, 2, 3]" and w = world0]
    by (simp add: readLimited_def writeLimited_def unlimited_def steadyConn_def failingConn_def
        world0_def conn_calls_def kilobyte_def three)
qed

text \<open>
  The sleep is there while the results pass: under a write limit of 4096 the Write that
  takes 3 bytes in 500 nanoseconds and fails sleeps \<open>244140 * 3 - 500\<close> nanoseconds and
  still returns the 3 and the error.
\<close>

lemma failing_Write_sleeps_and_passes:
  "Write failingConn [1, 2, 3] writeLimited world0
     = ((writeLimited, Inr (3, Some (errors_New ''write: broken pipe''), [1, 2, 3])),
        world0\<lparr>clock := clock world0 + 500 + 731920, heap := (heap world0)(0 := Suc 0),
               trace := [EvNow, EvWrite 0 [1, 2, 3], EvNow, EvSleep 731920]\<rparr>)"
  by (simp add: go_eval failingConn_def)

subsection \<open>The two directions\<close>

text \<open>
  C8. The body of Read and the body of SetReadLimit leave the write limit and the write
  timestamp of the receiver as they were, and replacing these two fields by any other
  values changes nothing else in what the bodies do: they are not read. The body of
  Write and the body of SetWriteLimit treat the read limit and the read timestamp so.
\<close>

theorem directions_are_independent:
  "wlim (fst (fst (Read_body impl b rlc w))) = wlim rlc
   \<and> wtime (fst (fst (Read_body impl b rlc w))) = wtime rlc
   \<and> Read_body impl b (rlc\<lparr>wlim := l, wtime := t\<rparr>) w
       = (case Read_body impl b rlc w of
            ((rlc', res), w') \<Rightarrow> ((rlc'\<lparr>wlim := l, wtime := t\<rparr>, res), w'))
   \<and> wlim (fst (fst (SetReadLimit_body lim rlc w))) = wlim rlc
   \<and> wtime (fst (fst (SetReadLimit_body lim rlc w))) = wtime rlc
   \<and> SetReadLimit_body lim (rlc\<lparr>wlim := l, wtime := t\<rparr>) w
       = (case SetReadLimit_body lim rlc w of
            ((rlc', e), w') \<Rightarrow> ((rlc'\<lparr>wlim := l, wtime := t\<rparr>, e), w'))
   \<and> rlim (fst (fst (Write_body impl b rlc w))) = rlim rlc
   \<and> rtime (fst (fst (Write_body impl b rlc w))) = rtime rlc
   \<and> Write_body impl b (rlc\<lparr>rlim := l, rtime := t\<rparr>) w
       = (case Write_body impl b rlc w of
            ((rlc', res), w') \<Rightarrow> ((rlc'\<lparr>rlim := l, rtime := t\<rparr>, res), w'))
   \<and> rlim (fst (fst (SetWriteLimit_body lim rlc w))) = rlim rlc
   \<and> rtime (fst (fst (SetWriteLimit_body lim rlc w))) = rtime rlc
   \<and> SetWriteLimit_body lim (rlc\<lparr>rlim := l, rtime := t\<rparr>) w
       = (case SetWriteLimit_body lim rlc w of
            ((rlc', e), w') \<Rightarrow> ((rlc'\<lparr>rlim := l, rtime := t\<rparr>, e), w'))"
proof (intro conjI)
  show "wlim (fst (fst (Read_body impl b rlc w))) = wlim rlc"
    by (simp add: Read_body_def time_Now_def Let_def split: prod.splits sum.splits)
  show "wtime (fst (fst (Read_body impl b rlc w))) = wtime rlc"
    by (simp add: Read_body_def time_Now_def Let_def split: prod.splits sum.splits)
  show "Read_body impl b (rlc\<lparr>wlim := l, wtime := t\<rparr>) w
       = (case Read_body impl b rlc w of
            ((rlc', res), w') \<Rightarrow> ((rlc'\<lparr>wlim := l, wtime := t\<rparr>, res), w'))"
    by (simp add: Read_body_def time_Now_def Let_def split: prod.splits sum.splits)
  show "rlim (fst (fst (Write_body impl b rlc w))) = rlim rlc"
    by (simp add: Write_body_def time_Now_def Let_def split: prod.splits sum.splits)
  show "rtime (fst (fst (Write_body impl b rlc w))) = rtime rlc"
    by (simp add: Write_body_def time_Now_def Let_def split: prod.splits sum.splits)
  show "Write_body impl b (rlc\<lparr>rlim := l, rtime := t\<rparr>) w
       = (case Write_body impl b rlc w of
            ((rlc', res), w') \<Rightarrow> ((rlc'\<lparr>rlim := l, rtime := t\<rparr>, res), w'))"
    by (simp add: Write_body_def time_Now_def Let_def split: prod.splits sum.splits)
qed (simp_all add: SetReadLimit_body_def SetWriteLimit_body_def)

subsection \<open>Value receivers\<close>

lemma invoke_keeps_caller: "fst (fst (invoke impl c rlc w)) = rlc"
  by (cases c)
    (simp_all add: Read_def Write_def SetReadLimit_def SetWriteLimit_def value_receiver_def
      split: prod.splits)

lemma run_keeps_caller: "fst (fst (run impl cs rlc w)) = rlc"
proof (induction cs arbitrary: w)
  case Nil
  show ?case by simp
next
  case (Cons c cs)
  obtain out w1 where step: "invoke impl c rlc w = ((rlc, out), w1)"
    using invoke_keeps_caller [of impl c rlc w]
    by (cases "invoke impl c rlc w") (auto simp: prod_eq_iff)
  show ?case
  proof (cases "is_panic out")
    case True
    with step show ?thesis by simp
  next
    case False
    obtain outs w2 where rest: "run impl cs rlc w1 = ((rlc, outs), w2)"
      using Cons.IH [of w1] by (cases "run impl cs rlc w1") (auto simp: prod_eq_iff)
    with step False show ?thesis by simp
  qed
qed

text \<open>
  The bodies do assign to their receiver: the assignments are in the model, and they
  are lost only because the receiver is a copy.
\<close>

lemma SetReadLimit_body_assigns:
  "0 \<le>s lim \<Longrightarrow> rlim (fst (fst (SetReadLimit_body lim rlc w))) = lim"
  by (simp add: SetReadLimit_body_def word_sle_eq word_sless_alt)

lemma SetWriteLimit_body_assigns:
  "0 \<le>s lim \<Longrightarrow> wlim (fst (fst (SetWriteLimit_body lim rlc w))) = lim"
  by (simp add: SetWriteLimit_body_def word_sle_eq word_sless_alt)

text \<open>
  C3. Each of Read, Write, SetReadLimit and SetWriteLimit leaves the caller's wrapper
  equal to the value it was called on, in all five fields. So does every sequence of
  calls through the same wrapper variable, and a call that follows another one behaves
  as it would on the wrapper before that other call, in the world that call left: no
  assignment to a limit or to a timestamp reaches a later call.
\<close>

theorem value_receivers_keep_caller_state:
  "fst (fst (Read impl b rlc w)) = rlc
   \<and> fst (fst (Write impl b rlc w)) = rlc
   \<and> fst (fst (SetReadLimit lim rlc w)) = rlc
   \<and> fst (fst (SetWriteLimit lim rlc w)) = rlc
   \<and> fst (fst (run impl cs rlc w)) = rlc
   \<and> invoke impl c2 (fst (fst (invoke impl c1 rlc w))) w' = invoke impl c2 rlc w'"
  by (simp add: Read_def Write_def SetReadLimit_def SetWriteLimit_def value_receiver_caller
      run_keeps_caller invoke_keeps_caller)

subsection \<open>The delay\<close>


text \<open>
  The product and the difference of the code are those of \<^verbatim>\<open>int64\<close>: they are the
  integers' product and difference whenever these fit 64 bits, as they do for a byte
  count below \<open>2 ^ 63 div 10 ^ 9\<close> and an elapsed time that is not negative.
\<close>

lemma int64_product_exact:
  fixes x y :: int64
  assumes "- (2 ^ 63) \<le> sint x * sint y" and "sint x * sint y < 2 ^ 63"
  shows "sint (x * y) = sint x * sint y"
  using assms by (simp add: sint_word_mult signed_take_bit_int_eq_self)

lemma int64_difference_exact:
  fixes x d :: int64
  assumes "0 \<le>s d" and "d <s x"
  shows "sint (x - d) = sint x - sint d \<and> 0 < sint (x - d)"
proof -
  have hi: "sint x < 2 ^ 63" using sint_lt [of x] by simp
  from assms have "0 \<le> sint d" "sint d < sint x" by (simp_all add: word_sle_eq word_sless_alt)
  then have "- (2 ^ 63) \<le> sint x - sint d" "sint x - sint d < 2 ^ 63" "0 < sint x - sint d"
    using hi by simp_all
  then show ?thesis by (simp add: sint_word_diff signed_take_bit_int_eq_self)
qed



subsection \<open>The first operation and the baseline\<close>

lemma Sub_same_start:
  assumes "int k \<le> maxDuration"
  shows "sint (Sub (c + int k) c) = int k"
proof -
  have "- (2 ^ 63) \<le> int k" by (rule order_trans [of _ 0]) simp_all
  moreover have "int k < 2 ^ 63" using assms by (simp add: maxDuration_def)
  ultimately have fit: "sint (word_of_int (int k) :: 64 word) = int k"
    by (rule sint_word_of_int_64)
  have "\<not> maxDuration < c + int k - c" and "\<not> c + int k - c < minDuration"
    using assms by (simp_all add: minDuration_def)
  then have "Sub (c + int k) c = word_of_int (c + int k - c)"
    unfolding Sub_def by (simp only: if_False)
  also have "c + int k - c = int k" by simp
  finally show ?thesis by (simp only: fit)
qed

text \<open>
  C1, as the code has it. On a wrapper with a connection and a positive read limit, a
  Read that finds the read timestamp unset reads the clock before the underlying Read
  and takes that instant as its baseline, so that \<open>d\<close> is the time the underlying Read
  took; a Read that finds a timestamp takes it as the baseline. Either way the Read
  sleeps \<open>allowed - d\<close> when \<open>0 < n\<close> and \<open>d < allowed\<close> and not otherwise, and the
  method assigns to its receiver's read timestamp the instant at which the underlying
  Read ended, which is before the sleep: the clock at return is later by the time slept.
  Write does the same with the write limit and the write timestamp.
\<close>

theorem operation_is_throttled_from_its_baseline:
  "(0 <s rlim rlc \<longrightarrow> Conn rlc = Some a \<longrightarrow>
      (let r = fst (conn_Read impl (heap w a) b);
           t = clock w + int (io_dur r);
           base = (if IsZero (rtime rlc) then clock w else rtime rlc);
           d = Nanoseconds (Sub t base);
           allowed = word_of_int (1000000000 div sint (rlim rlc)) * to_int64 (io_n r);
           sleeps = (0 <s io_n r \<and> d <s allowed)
       in trace (snd (Read_body impl b rlc w))
            = trace w @ (if IsZero (rtime rlc) then [EvNow] else []) @ [EvRead a b, EvNow]
                @ (if sleeps then [EvSleep (allowed - d)] else [])
          \<and> rtime (fst (fst (Read_body impl b rlc w))) = t
          \<and> clock (snd (Read_body impl b rlc w))
              = t + (if sleeps \<and> 0 <s allowed - d then sint (allowed - d) else 0)
          \<and> (IsZero (rtime rlc) \<longrightarrow> int (io_dur r) \<le> maxDuration \<longrightarrow> sint d = int (io_dur r))))
   \<and> (0 <s wlim rlc \<longrightarrow> Conn rlc = Some a \<longrightarrow>
      (let r = fst (conn_Write impl (heap w a) b);
           t = clock w + int (io_dur r);
           base = (if IsZero (wtime rlc) then clock w else wtime rlc);
           d = Nanoseconds (Sub t base);
           allowed = word_of_int (1000000000 div sint (wlim rlc)) * to_int64 (io_n r);
           sleeps = (0 <s io_n r \<and> d <s allowed)
       in trace (snd (Write_body impl b rlc w))
            = trace w @ (if IsZero (wtime rlc) then [EvNow] else []) @ [EvWrite a b, EvNow]
                @ (if sleeps then [EvSleep (allowed - d)] else [])
          \<and> wtime (fst (fst (Write_body impl b rlc w))) = t
          \<and> clock (snd (Write_body impl b rlc w))
              = t + (if sleeps \<and> 0 <s allowed - d then sint (allowed - d) else 0)
          \<and> (IsZero (wtime rlc) \<longrightarrow> int (io_dur r) \<le> maxDuration \<longrightarrow> sint d = int (io_dur r))))"
proof (intro conjI impI)
  assume pos: "0 <s rlim rlc" and conn: "Conn rlc = Some a"
  obtain r s where rs: "conn_Read impl (heap w a) b = (r, s)"
    by (cases "conn_Read impl (heap w a) b")
  show "let r = fst (conn_Read impl (heap w a) b);
           t = clock w + int (io_dur r);
           base = (if IsZero (rtime rlc) then clock w else rtime rlc);
           d = Nanoseconds (Sub t base);
           allowed = word_of_int (1000000000 div sint (rlim rlc)) * to_int64 (io_n r);
           sleeps = (0 <s io_n r \<and> d <s allowed)
       in trace (snd (Read_body impl b rlc w))
            = trace w @ (if IsZero (rtime rlc) then [EvNow] else []) @ [EvRead a b, EvNow]
                @ (if sleeps then [EvSleep (allowed - d)] else [])
          \<and> rtime (fst (fst (Read_body impl b rlc w))) = t
          \<and> clock (snd (Read_body impl b rlc w))
              = t + (if sleeps \<and> 0 <s allowed - d then sint (allowed - d) else 0)
          \<and> (IsZero (rtime rlc) \<longrightarrow> int (io_dur r) \<le> maxDuration \<longrightarrow> sint d = int (io_dur r))"
    by (simp add: Read_body_limited [OF pos conn rs] rs Let_def time_Sleep_def Nanoseconds_def
        to_int64_def Sub_same_start)
next
  assume pos: "0 <s wlim rlc" and conn: "Conn rlc = Some a"
  obtain r s where rs: "conn_Write impl (heap w a) b = (r, s)"
    by (cases "conn_Write impl (heap w a) b")
  show "let r = fst (conn_Write impl (heap w a) b);
           t = clock w + int (io_dur r);
           base = (if IsZero (wtime rlc) then clock w else wtime rlc);
           d = Nanoseconds (Sub t base);
           allowed = word_of_int (1000000000 div sint (wlim rlc)) * to_int64 (io_n r);
           sleeps = (0 <s io_n r \<and> d <s allowed)
       in trace (snd (Write_body impl b rlc w))
            = trace w @ (if IsZero (wtime rlc) then [EvNow] else []) @ [EvWrite a b, EvNow]
                @ (if sleeps then [EvSleep (allowed - d)] else [])
          \<and> wtime (fst (fst (Write_body impl b rlc w))) = t
          \<and> clock (snd (Write_body impl b rlc w))
              = t + (if sleeps \<and> 0 <s allowed - d then sint (allowed - d) else 0)
          \<and> (IsZero (wtime rlc) \<longrightarrow> int (io_dur r) \<le> maxDuration \<longrightarrow> sint d = int (io_dur r))"
    by (simp add: Write_body_limited [OF pos conn rs] rs Let_def time_Sleep_def Nanoseconds_def
        to_int64_def Sub_same_start)
qed

theorem operation_is_throttled_from_its_baseline_witness:
  "0 <s rlim readLimited \<and> Conn readLimited = Some 0 \<and> IsZero (rtime readLimited)
   \<and> trace (snd (Read_body steadyConn kilobyte readLimited world0))
       = [EvNow, EvRead 0 kilobyte, EvNow, EvSleep 248999360]
   \<and> rtime (fst (fst (Read_body steadyConn kilobyte readLimited world0)))
       = clock world0 + 1000000
   \<and> clock (snd (Read_body steadyConn kilobyte readLimited world0))
       = clock world0 + 1000000 + 248999360
   \<and> trace (snd (Read_body steadyConn kilobyte
                   (readLimited\<lparr>rtime := clock world0 - 300000000\<rparr>) world0))
       = [EvRead 0 kilobyte, EvNow]
   \<and> wtime (fst (fst (Write_body steadyConn kilobyte writeLimited world0)))
       = clock world0 + 1000000"
proof -
  have len: "(word_of_nat (length kilobyte) :: 64 word) = 1024" by (simp add: kilobyte_def)
  show ?thesis
    using operation_is_throttled_from_its_baseline
        [where rlc = readLimited and a = 0 and impl = steadyConn and b = kilobyte and w = world0]
      operation_is_throttled_from_its_baseline
        [where rlc = "readLimited\<lparr>rtime := clock world0 - 300000000\<rparr>" and a = 0
           and impl = steadyConn and b = kilobyte and w = world0]
      operation_is_throttled_from_its_baseline
        [where rlc = writeLimited and a = 0 and impl = steadyConn and b = kilobyte and w = world0]
    by (simp add: readLimited_def writeLimited_def steadyConn_def world0_def len Let_def
        IsZero_def zeroTime_def Sub_def Nanoseconds_def to_int64_def maxDuration_def
        minDuration_def word_sless_alt)
qed

text \<open>
  C1 as stated does not hold. The first Read on the wrapper that \<open>New\<close> builds with a
  read limit of 4096 bytes per second sleeps: the underlying Read delivers 1024 bytes in one millisecond, the
  allowed time is \<open>244140 * 1024\<close> nanoseconds, and the Read sleeps the remaining
  248999360. A second Read through the same wrapper reads the clock anew before its
  transfer and sleeps as long again.
\<close>

theorem first_read_is_delayed:
  "New (Some 0) 4096 0 world0 = ((Some readLimited, None), world0)
   \<and> trace (snd (Read steadyConn kilobyte readLimited world0))
       = [EvNow, EvRead 0 kilobyte, EvNow, EvSleep 248999360]
   \<and> clock (snd (Read steadyConn kilobyte readLimited world0))
       = clock world0 + 1000000 + 248999360
   \<and> trace (snd (run steadyConn [DoRead kilobyte, DoRead kilobyte] readLimited world0))
       = [EvNow, EvRead 0 kilobyte, EvNow, EvSleep 248999360,
          EvNow, EvRead 0 kilobyte, EvNow, EvSleep 248999360]"
  by (simp add: go_eval)

subsection \<open>The limit mutators\<close>

lemma SetLimit_negative_rejected:
  assumes "lim <s 0"
  shows "SetReadLimit lim rlc w = ((rlc, Some (errors_New ''read limit cannot be negative'')), w)"
    and "SetWriteLimit lim rlc w = ((rlc, Some (errors_New ''write limit cannot be negative'')), w)"
  using assms
  by (simp_all add: SetReadLimit_def SetWriteLimit_def value_receiver_def
      SetReadLimit_body_def SetWriteLimit_body_def)

lemma SetLimit_nonnegative_accepted:
  assumes "0 \<le>s lim"
  shows "snd (fst (SetReadLimit lim rlc w)) = None"
    and "snd (fst (SetWriteLimit lim rlc w)) = None"
  using assms
  by (simp_all add: SetReadLimit_def SetWriteLimit_def value_receiver_def
      SetReadLimit_body_def SetWriteLimit_body_def word_sle_eq word_sless_alt)

text \<open>
  C2 at a concrete input. On the wrapper that \<open>New\<close> builds without limits,
  \<^verbatim>\<open>SetReadLimit(4096)\<close> returns no error, and the Read that follows through the same
  wrapper is still the bare call on the connection: no clock reading, no sleep. Under
  a read limit of 4096 the same Read sleeps 248999360 nanoseconds.
\<close>

theorem SetReadLimit_does_not_reach_next_Read:
  "New (Some 0) 0 0 world0 = ((Some unlimited, None), world0)
   \<and> fst (run steadyConn [DoSetReadLimit 4096, DoRead kilobyte] unlimited world0)
       = (unlimited, [Configured None, Transferred (1024, None, kilobyte)])
   \<and> trace (snd (run steadyConn [DoSetReadLimit 4096, DoRead kilobyte] unlimited world0))
       = [EvRead 0 kilobyte]
   \<and> trace (snd (run steadyConn [DoRead kilobyte] (unlimited\<lparr>rlim := 4096\<rparr>) world0))
       = [EvNow, EvRead 0 kilobyte, EvNow, EvSleep 248999360]"
  by (simp add: go_eval)

end
